theory Spec2Isabelle
  imports Complex_Main "HOL-Library.AList"
begin

section \<open>The paddle server (main.go)\<close>

subsection \<open>Constants\<close>

definition CanvasHeight :: int where
  "CanvasHeight = 600"

definition PaddleHeight :: int where
  "PaddleHeight = 100"

definition MaxPaddleY :: int where
  "MaxPaddleY = CanvasHeight - PaddleHeight"

definition AssignMessage :: string where
  "AssignMessage = ''assign''"

definition MoveMessage :: string where
  "MoveMessage = ''move''"

definition UpdateMessage :: string where
  "UpdateMessage = ''update''"

definition ErrorMessage :: string where
  "ErrorMessage = ''error''"

subsection \<open>Messages and their JSON encoding\<close>

text \<open>
  The struct \<open>Message\<close>. The field \<open>Y\<close> is a pointer in the source (\<open>*int\<close>), so that a
  missing or null \<open>y\<close> is told apart from 0: \<open>None\<close> is the nil pointer. Go's \<open>int\<close> is
  modelled by \<open>int\<close>: \<open>main.go\<close> only compares and copies these values, it never
  computes with them, so no overflow can occur.
\<close>

record Message =
  Type :: string
  Player :: string
  Y :: "int option"
  LeftY :: int
  RightY :: int

text \<open>
  The values of JSON members: a string, an integer literal, \<open>null\<close>, \<open>true\<close> or \<open>false\<close>,
  a number literal with a fraction or an exponent, and an array or an object.
\<close>

datatype json = JString string | JInt int | JNull | JBool bool | JFloat | JCompound

text \<open>
  \<open>json.Marshal\<close> on a \<open>Message\<close>, as the struct tags direct it: the object lists the
  fields in declaration order; \<open>type\<close> is always written; every other field carries
  \<open>omitempty\<close> and is left out when it holds its empty value (the empty string, the nil
  pointer, the integer 0). Marshalling this struct cannot fail.
\<close>

definition marshal :: "Message \<Rightarrow> (string \<times> json) list" where
  "marshal m =
     [(''type'', JString (Type m))]
     @ (if Player m = [] then [] else [(''player'', JString (Player m))])
     @ (case Y m of None \<Rightarrow> [] | Some y \<Rightarrow> [(''y'', JInt y)])
     @ (if LeftY m = 0 then [] else [(''leftY'', JInt (LeftY m))])
     @ (if RightY m = 0 then [] else [(''rightY'', JInt (RightY m))])"

subsection \<open>Server state\<close>

record GameState =
  PanYLeft :: int
  PanYRight :: int

text \<open>
  A connection (\<open>*websocket.Conn\<close>) is its identity. The two Go maps keyed by
  connections are association lists with distinct keys; the order of a list stands for
  the order in which \<open>range\<close> happens to visit the map, which Go leaves unspecified.
  \<open>wire\<close> is the log of the write attempts made on the sockets: the connection, the
  payload and whether the write succeeded.
\<close>

type_synonym conn = nat

type_synonym payload = "(string \<times> json) list"

record Server =
  gameState :: GameState
  clients :: "(conn \<times> string) list"
  assignedPlayers :: "(conn \<times> string) list"
  wire :: "(conn \<times> payload \<times> bool) list"

definition initServer :: Server where
  "initServer =
     \<lparr> gameState = \<lparr> PanYLeft = CanvasHeight div 2 - PaddleHeight div 2,
                      PanYRight = CanvasHeight div 2 - PaddleHeight div 2 \<rparr>,
       clients = [], assignedPlayers = [], wire = [] \<rparr>"

subsection \<open>Writing to a socket\<close>

text \<open>
  Whether a write fails is decided by the network. \<open>failing\<close> lists the connections
  whose writes fail during the call at hand.
\<close>

definition writeTo :: "conn list \<Rightarrow> conn \<Rightarrow> payload \<Rightarrow> Server \<Rightarrow> Server" where
  "writeTo failing c bytes s = s\<lparr> wire := wire s @ [(c, bytes, c \<notin> set failing)] \<rparr>"

subsection \<open>broadcastUpdate\<close>

text \<open>
  The loop \<open>for client := range clients\<close>: one write per registered connection; a failed
  write closes that connection and deletes it from \<open>clients\<close>, and the loop goes on.
  (Closing shows later as a failed read in that connection's own handler.)
\<close>

fun broadcastLoop :: "conn list \<Rightarrow> payload \<Rightarrow> (conn \<times> string) list \<Rightarrow> Server \<Rightarrow> Server" where
  "broadcastLoop failing bytes [] s = s"
| "broadcastLoop failing bytes ((client, role) # rest) s =
     (let s1 = writeTo failing client bytes s in
      if client \<in> set failing
      then broadcastLoop failing bytes rest (s1\<lparr> clients := AList.delete client (clients s1) \<rparr>)
      else broadcastLoop failing bytes rest s1)"

definition updateMsg :: "GameState \<Rightarrow> Message" where
  "updateMsg g =
     \<lparr> Type = UpdateMessage, Player = [], Y = None,
       LeftY = PanYLeft g, RightY = PanYRight g \<rparr>"

definition broadcastUpdate :: "conn list \<Rightarrow> Server \<Rightarrow> Server" where
  "broadcastUpdate failing s =
     (let msgBytes = marshal (updateMsg (gameState s))
      in broadcastLoop failing msgBytes (clients s) s)"

subsection \<open>assignPlayer\<close>

text \<open>The loop that fills \<open>roles\<close>: the pair holds \<open>roles["left"]\<close> and \<open>roles["right"]\<close>.\<close>

fun rolesLoop :: "(conn \<times> string) list \<Rightarrow> bool \<times> bool \<Rightarrow> bool \<times> bool" where
  "rolesLoop [] roles = roles"
| "rolesLoop ((c, role) # rest) (l, r) =
     rolesLoop rest (if role = ''left'' then True else l, if role = ''right'' then True else r)"

definition assignPlayer :: "conn \<Rightarrow> (conn \<times> string) list \<Rightarrow> string \<times> (conn \<times> string) list" where
  "assignPlayer c ap =
     (let roles = rolesLoop ap (False, False);
          assigned = (if \<not> fst roles then ''left''
                      else if \<not> snd roles then ''right''
                      else ''none'')
      in if assigned \<noteq> ''none''
         then (assigned, AList.update c assigned ap)
         else (assigned, ap))"

text \<open>The release of a seat is the \<open>delete(assignedPlayers, ws)\<close> of the cleanup.\<close>

definition release :: "conn \<Rightarrow> (conn \<times> string) list \<Rightarrow> (conn \<times> string) list" where
  "release c ap = AList.delete c ap"

subsection \<open>clampYPosition\<close>

definition clampYPosition :: "int \<Rightarrow> int" where
  "clampYPosition y = (if y < 0 then 0 else if y > MaxPaddleY then MaxPaddleY else y)"

subsection \<open>handleConnections\<close>

text \<open>
  The handler in three parts: what it does on accepting a connection, the body of its
  read loop, and the cleanup after the loop. \<open>accept\<close> returns the seat when the
  handler goes on to the read loop, and \<open>None\<close> when it returns at once.
\<close>

definition accept :: "conn list \<Rightarrow> conn \<Rightarrow> Server \<Rightarrow> string option \<times> Server" where
  "accept failing ws s =
     (let (player, ap) = assignPlayer ws (assignedPlayers s);
          s1 = s\<lparr> assignedPlayers := ap \<rparr>
      in if player = ''none''
         then (None,
               writeTo failing ws
                 (marshal \<lparr> Type = ErrorMessage, Player = ''none'', Y = None,
                            LeftY = 0, RightY = 0 \<rparr>) s1)
         else
           (let s2 = s1\<lparr> clients := AList.update ws player (clients s1) \<rparr>;
                s3 = writeTo failing ws
                       (marshal \<lparr> Type = AssignMessage, Player = player, Y = None,
                                  LeftY = 0, RightY = 0 \<rparr>) s2;
                s4 = writeTo failing ws (marshal (updateMsg (gameState s3))) s3
            in (Some player, s4)))"

text \<open>The state change of a validated move: the two branches on \<open>msg.Player\<close>.\<close>

definition applyMove :: "string \<Rightarrow> int \<Rightarrow> GameState \<Rightarrow> GameState" where
  "applyMove player y g =
     (if player = ''left''
      then (let clampedY = clampYPosition y
            in if clampedY \<noteq> PanYLeft g then g\<lparr> PanYLeft := clampedY \<rparr> else g)
      else if player = ''right''
      then (let clampedY = clampYPosition y
            in if clampedY \<noteq> PanYRight g then g\<lparr> PanYRight := clampedY \<rparr> else g)
      else g)"

text \<open>
  The body of the read loop for a message that \<open>ReadJSON\<close> decoded. \<open>player\<close> is the
  handler's local variable holding the seat of the connection; the body never reads it.
\<close>

definition handleMessage :: "conn list \<Rightarrow> string \<Rightarrow> Message \<Rightarrow> Server \<Rightarrow> Server" where
  "handleMessage failing player msg s =
     (if Type msg = MoveMessage \<and> Player msg \<noteq> [] \<and> Y msg \<noteq> None
      then broadcastUpdate failing
             (s\<lparr> gameState := applyMove (Player msg) (the (Y msg)) (gameState s) \<rparr>)
      else s)"

text \<open>
  What \<open>ReadJSON\<close> returns: an error (the connection broke, or the text was not a JSON
  object that fits \<open>Message\<close>), or a decoded message. Each read comes with the list of
  connections whose writes fail in the broadcast that may follow.
\<close>

datatype read = ReadErr | ReadOk Message

text \<open>
  The read loop. The result says whether the loop was left (\<open>True\<close>: a read failed and
  the handler goes on to its cleanup) or is still waiting for the next message.
\<close>

fun readLoop :: "string \<Rightarrow> (read \<times> conn list) list \<Rightarrow> Server \<Rightarrow> bool \<times> Server" where
  "readLoop player [] s = (False, s)"
| "readLoop player ((ReadErr, failing) # rest) s = (True, s)"
| "readLoop player ((ReadOk msg, failing) # rest) s =
     readLoop player rest (handleMessage failing player msg s)"

definition cleanup :: "conn \<Rightarrow> Server \<Rightarrow> Server" where
  "cleanup ws s =
     s\<lparr> clients := AList.delete ws (clients s),
        assignedPlayers := release ws (assignedPlayers s) \<rparr>"

definition handleConnections ::
    "conn list \<Rightarrow> conn \<Rightarrow> (read \<times> conn list) list \<Rightarrow> Server \<Rightarrow> Server" where
  "handleConnections failing ws inputs s =
     (case accept failing ws s of
        (None, s1) \<Rightarrow> s1
      | (Some player, s1) \<Rightarrow>
          (case readLoop player inputs s1 of
             (True, s2) \<Rightarrow> cleanup ws s2
           | (False, s2) \<Rightarrow> s2))"

subsection \<open>ReadJSON\<close>








subsection \<open>Sample inputs\<close>

text \<open>The message that \<open>ReadJSON\<close> decodes from \<open>{"type":"move","player":p,"y":y}\<close>.\<close>

definition moveMsg :: "string \<Rightarrow> int \<Rightarrow> Message" where
  "moveMsg p y = \<lparr> Type = MoveMessage, Player = p, Y = Some y, LeftY = 0, RightY = 0 \<rparr>"

text \<open>The server after connections 1 and 2 were accepted, in this order.\<close>

definition twoPlayers :: Server where
  "twoPlayers = snd (accept [] 2 (snd (accept [] 1 initServer)))"

subsection \<open>The seat registry under concurrent handlers\<close>

text \<open>
  \<open>assignedPlayers\<close> is touched in two places only, each inside \<open>assignMutex\<close>: the body
  of \<open>assignPlayer\<close> and the \<open>delete\<close> of the cleanup. However the handlers interleave,
  the registry is therefore the result of a sequence of these two operations, started
  on the empty map.
\<close>

datatype regop = Assign conn | Release conn

fun regStep :: "(conn \<times> string) list \<Rightarrow> regop \<Rightarrow> (conn \<times> string) list" where
  "regStep ap (Assign c) = snd (assignPlayer c ap)"
| "regStep ap (Release c) = release c ap"

definition registryAfter :: "regop list \<Rightarrow> (conn \<times> string) list" where
  "registryAfter ops = foldl regStep [] ops"

section \<open>The full-simulation variant: the ball\<close>

text \<open>
  The repository carries a second \<open>package main\<close>, the variant of the server that also
  simulates the ball. It has the constants, the seat registry, \<open>clampYPosition\<close> and the
  handler of the first; what it adds is modelled here.
\<close>

definition CanvasWidth :: int where
  "CanvasWidth = 800"

definition PaddleWidth :: int where
  "PaddleWidth = 20"

text \<open>
  The ball's coordinates are \<open>float64\<close>. The type and its operations are kept abstract:
  \<open>'f\<close> stands for \<open>float64\<close>, and the record below holds the operations the code uses
  on it (\<open>+\<close>, unary \<open>-\<close>, the four comparisons, the conversion \<open>float64(n)\<close> of an integer
  and the conversion \<open>int(x)\<close>). Nothing is assumed about them.
\<close>

record 'f float64_ops =
  fadd :: "'f \<Rightarrow> 'f \<Rightarrow> 'f"
  fneg :: "'f \<Rightarrow> 'f"
  fle :: "'f \<Rightarrow> 'f \<Rightarrow> bool"
  fge :: "'f \<Rightarrow> 'f \<Rightarrow> bool"
  flt :: "'f \<Rightarrow> 'f \<Rightarrow> bool"
  fgt :: "'f \<Rightarrow> 'f \<Rightarrow> bool"
  fromInt :: "int \<Rightarrow> 'f"
  toInt :: "'f \<Rightarrow> int"

record 'f Ball =
  X :: 'f
  Y :: 'f
  Vx :: 'f
  Vy :: 'f

text \<open>The variant's \<open>GameState\<close>: the two paddles and the ball.\<close>

record 'f SimState = GameState +
  Ball :: "'f Ball"

definition initSim :: "'f float64_ops \<Rightarrow> 'f SimState" where
  "initSim F =
     \<lparr> PanYLeft = CanvasHeight div 2 - PaddleHeight div 2,
       PanYRight = CanvasHeight div 2 - PaddleHeight div 2,
       Ball = \<lparr> X = fromInt F (CanvasWidth div 2), Y = fromInt F (CanvasHeight div 2),
                Vx = fromInt F 4, Vy = fromInt F 4 \<rparr> \<rparr>"

text \<open>The first two statements of \<open>updateBallPosition\<close>.\<close>

definition integrate :: "'f float64_ops \<Rightarrow> 'f Ball \<Rightarrow> 'f Ball" where
  "integrate F b =
     (let b = b\<lparr> X := fadd F (X b) (Vx b) \<rparr>;
          b = b\<lparr> Y := fadd F (Y b) (Vy b) \<rparr>
      in b)"

text \<open>
  \<open>updateBallPosition\<close>. It holds the lock of \<open>gameState\<close> from its first statement until
  it returns. In the two game-over branches it calls \<open>broadcastGameOver\<close>, whose first
  statement locks \<open>gameState\<close> again; the mutex is not reentrant, so that call never
  returns, and neither does \<open>updateBallPosition\<close>: the result is \<open>None\<close>. In the paddle
  tests the sum \<open>PanYLeft + PaddleHeight\<close> is far from overflow for every paddle position
  that \<open>clampYPosition\<close> stores.
\<close>

definition updateBallPosition :: "'f float64_ops \<Rightarrow> 'f SimState \<Rightarrow> 'f SimState option" where
  "updateBallPosition F g =
     (let b = integrate F (Ball g);
          b = (if fle F (Y b) (fromInt F 0)
               then b\<lparr> Y := fromInt F 0, Vy := fneg F (Vy b) \<rparr> else b);
          b = (if fge F (Y b) (fromInt F CanvasHeight)
               then b\<lparr> Y := fromInt F CanvasHeight, Vy := fneg F (Vy b) \<rparr> else b);
          b = (if fle F (X b) (fromInt F PaddleWidth)
               then (if toInt F (Y b) \<ge> PanYLeft g \<and> toInt F (Y b) \<le> PanYLeft g + PaddleHeight
                     then b\<lparr> X := fromInt F PaddleWidth, Vx := fneg F (Vx b) \<rparr> else b)
               else b);
          b = (if fge F (X b) (fromInt F (CanvasWidth - PaddleWidth))
               then (if toInt F (Y b) \<ge> PanYRight g \<and> toInt F (Y b) \<le> PanYRight g + PaddleHeight
                     then b\<lparr> X := fromInt F (CanvasWidth - PaddleWidth), Vx := fneg F (Vx b) \<rparr>
                     else b)
               else b)
      in if flt F (X b) (fromInt F 0) then None
         else if fgt F (X b) (fromInt F CanvasWidth) then None
         else Some (g\<lparr> Ball := b \<rparr>))"

text \<open>
  An instance for running examples: the operations of the reals. On the values of the
  examples (integers of small size) \<open>float64\<close> computes the same results.
\<close>

definition exactOps :: "real float64_ops" where
  "exactOps =
     \<lparr> fadd = (+), fneg = uminus, fle = (\<le>), fge = (\<ge>), flt = (<), fgt = (>),
       fromInt = real_of_int,
       toInt = (\<lambda>x. if 0 \<le> x then \<lfloor>x\<rfloor> else \<lceil>x\<rceil>) \<rparr>"

subsection \<open>The invariant of the seat registry\<close>

text \<open>
  Keys are distinct (the list is a map), no seat occurs twice, and every stored seat is
  "left" or "right".
\<close>

definition seatsOk :: "(conn \<times> string) list \<Rightarrow> bool" where
  "seatsOk ap \<longleftrightarrow>
     distinct (map fst ap) \<and> distinct (map snd ap) \<and> snd ` set ap \<subseteq> {''left'', ''right''}"

section \<open>Properties\<close>

subsection \<open>Frame lemmas\<close>

lemma MaxPaddleY_500: "MaxPaddleY = 500"
  by (simp add: MaxPaddleY_def CanvasHeight_def PaddleHeight_def)

lemma clampYPosition_max_min: "clampYPosition y = max 0 (min y MaxPaddleY)"
  by (simp add: clampYPosition_def MaxPaddleY_500)

lemma gameState_writeTo [simp]: "gameState (writeTo failing c bytes s) = gameState s"
  by (simp add: writeTo_def)

lemma clients_writeTo [simp]: "clients (writeTo failing c bytes s) = clients s"
  by (simp add: writeTo_def)

lemma assignedPlayers_writeTo [simp]: "assignedPlayers (writeTo failing c bytes s) = assignedPlayers s"
  by (simp add: writeTo_def)

lemma gameState_broadcastLoop [simp]:
  "gameState (broadcastLoop failing bytes cs s) = gameState s"
  by (induction failing bytes cs s rule: broadcastLoop.induct) (simp_all add: Let_def)

lemma assignedPlayers_broadcastLoop [simp]:
  "assignedPlayers (broadcastLoop failing bytes cs s) = assignedPlayers s"
  by (induction failing bytes cs s rule: broadcastLoop.induct) (simp_all add: Let_def)

lemma gameState_broadcastUpdate [simp]:
  "gameState (broadcastUpdate failing s) = gameState s"
  by (simp add: broadcastUpdate_def)

lemma assignedPlayers_broadcastUpdate [simp]:
  "assignedPlayers (broadcastUpdate failing s) = assignedPlayers s"
  by (simp add: broadcastUpdate_def)

lemma gameState_handleMessage:
  "gameState (handleMessage failing player msg s) =
     (if Type msg = MoveMessage \<and> Player msg \<noteq> [] \<and> Message.Y msg \<noteq> None
      then applyMove (Player msg) (the (Message.Y msg)) (gameState s)
      else gameState s)"
  by (auto simp: handleMessage_def)

lemma applyMove_left: "PanYLeft (applyMove ''left'' y g) = clampYPosition y"
  by (simp add: applyMove_def Let_def)

lemma applyMove_right: "PanYRight (applyMove ''right'' y g) = clampYPosition y"
  by (simp add: applyMove_def Let_def)

lemma readLoop_append:
  "ReadErr \<notin> fst ` set pre \<Longrightarrow>
   readLoop player (pre @ rest) s = readLoop player rest (snd (readLoop player pre s))"
proof (induction player pre s rule: readLoop.induct)
  case (1 player s)
  show ?case by simp
next
  case (2 player failing rest s)
  then show ?case by simp
next
  case (3 player msg failing rest' s)
  then show ?case by simp
qed

subsection \<open>Moves are clamped\<close>

text \<open>
  Claim C1. Whatever messages a connection has sent before, once the read loop has
  applied a move with the integer \<open>y\<close> for a seat, the position stored for that seat is
  \<open>y\<close> clamped into \<open>[0, MaxPaddleY]\<close>, and \<open>MaxPaddleY\<close> is 500.
\<close>

theorem C1_stored_paddle_is_clamp:
  assumes "ReadErr \<notin> fst ` set pre"
    and "Type msg = MoveMessage" and "Message.Y msg = Some y"
  shows "MaxPaddleY = 500 \<and>
     (Player msg = ''left'' \<longrightarrow>
        PanYLeft (gameState (snd (readLoop player (pre @ [(ReadOk msg, failing)]) s)))
          = max 0 (min y MaxPaddleY)) \<and>
     (Player msg = ''right'' \<longrightarrow>
        PanYRight (gameState (snd (readLoop player (pre @ [(ReadOk msg, failing)]) s)))
          = max 0 (min y MaxPaddleY))"
proof -
  let ?s = "snd (readLoop player pre s)"
  have run: "readLoop player (pre @ [(ReadOk msg, failing)]) s
               = (False, handleMessage failing player msg ?s)"
    using assms(1) by (simp add: readLoop_append)
  have l: "Player msg = ''left'' \<Longrightarrow>
        PanYLeft (gameState (handleMessage failing player msg ?s)) = max 0 (min y MaxPaddleY)"
    using assms(2,3) by (simp add: gameState_handleMessage applyMove_left clampYPosition_max_min)
  have r: "Player msg = ''right'' \<Longrightarrow>
        PanYRight (gameState (handleMessage failing player msg ?s)) = max 0 (min y MaxPaddleY)"
    using assms(2,3) by (simp add: gameState_handleMessage applyMove_right clampYPosition_max_min)
  show ?thesis using run l r MaxPaddleY_500 by simp
qed

theorem C1_stored_paddle_is_clamp_witness:
  "ReadErr \<notin> fst ` set [(ReadOk (moveMsg ''left'' (- 7)), [])] \<and>
   Type (moveMsg ''right'' 700) = MoveMessage \<and>
   Message.Y (moveMsg ''right'' 700) = Some 700 \<and>
   PanYRight (gameState (snd (readLoop ''left''
      ([(ReadOk (moveMsg ''left'' (- 7)), [])] @ [(ReadOk (moveMsg ''right'' 700), [])])
      initServer))) = 500"
  using C1_stored_paddle_is_clamp
    [of "[(ReadOk (moveMsg ''left'' (- 7)), [])]" "moveMsg ''right'' 700" 700 "''left''" "[]"
        initServer]
  by (simp add: moveMsg_def MaxPaddleY_500)

subsection \<open>The seat registry\<close>

lemma rolesLoop_eq:
  "rolesLoop ap (l, r) = (l \<or> ''left'' \<in> snd ` set ap, r \<or> ''right'' \<in> snd ` set ap)"
  by (induction ap "(l, r)" arbitrary: l r rule: rolesLoop.induct) (auto simp: image_iff)

lemma assignPlayer_eq:
  "assignPlayer c ap =
     (if ''left'' \<notin> snd ` set ap then (''left'', AList.update c ''left'' ap)
      else if ''right'' \<notin> snd ` set ap then (''right'', AList.update c ''right'' ap)
      else (''none'', ap))"
  by (simp add: assignPlayer_def rolesLoop_eq Let_def)

lemma snd_set_update: "snd ` set (AList.update c v ap) \<subseteq> insert v (snd ` set ap)"
  by (induction ap) (auto simp: image_iff)

lemma distinct_snd_update:
  "distinct (map snd ap) \<Longrightarrow> v \<notin> snd ` set ap \<Longrightarrow> distinct (map snd (AList.update c v ap))"
proof (induction ap)
  case Nil
  then show ?case by simp
next
  case (Cons p ap)
  obtain k w where p: "p = (k, w)" by (cases p)
  have sub: "snd ` set (AList.update c v ap) \<subseteq> insert v (snd ` set ap)"
    by (rule snd_set_update)
  show ?case
  proof (cases "k = c")
    case True
    with Cons.prems p show ?thesis by (auto simp: image_iff)
  next
    case False
    with Cons p sub show ?thesis by (auto simp: image_iff)
  qed
qed

lemma seatsOk_update:
  "seatsOk ap \<Longrightarrow> v \<notin> snd ` set ap \<Longrightarrow> v = ''left'' \<or> v = ''right'' \<Longrightarrow>
   seatsOk (AList.update c v ap)"
  using snd_set_update [of c v ap]
  by (auto simp: seatsOk_def distinct_snd_update distinct_update)

lemma seatsOk_delete: "seatsOk ap \<Longrightarrow> seatsOk (AList.delete c ap)"
  by (auto simp: seatsOk_def AList.delete_eq distinct_map_filter)

lemma seatsOk_regStep: "seatsOk ap \<Longrightarrow> seatsOk (regStep ap op)"
  by (cases op) (simp_all add: assignPlayer_eq seatsOk_update seatsOk_delete release_def)

lemma seatsOk_foldl: "seatsOk ap \<Longrightarrow> seatsOk (foldl regStep ap ops)"
  by (induction ops arbitrary: ap) (simp_all add: seatsOk_regStep)

lemma seatsOk_registryAfter: "seatsOk (registryAfter ops)"
proof -
  have "seatsOk []" by (simp add: seatsOk_def)
  then show ?thesis unfolding registryAfter_def by (rule seatsOk_foldl)
qed

lemma seatsOk_inj:
  assumes "seatsOk ap" "map_of ap c1 = Some seat" "map_of ap c2 = Some seat"
  shows "c1 = c2"
proof -
  have m1: "(c1, seat) \<in> set ap" and m2: "(c2, seat) \<in> set ap"
    using assms by (auto dest: map_of_SomeD)
  have "inj_on snd (set ap)"
    using assms(1) by (simp add: seatsOk_def distinct_map)
  from inj_onD [OF this _ m1 m2] show ?thesis by simp
qed

text \<open>
  Claim C2. In every state the seat registry can reach, two connections that hold the
  same seat are the same connection (so at most one holds "left" and at most one holds
  "right"), and while both seats are occupied \<open>assignPlayer\<close> returns "none" to any
  connection and leaves the registry as it is.
\<close>

theorem C2_seats_injective:
  "(map_of (registryAfter ops) c1 = Some seat \<and> map_of (registryAfter ops) c2 = Some seat
      \<longrightarrow> c1 = c2) \<and>
   (''left'' \<in> snd ` set (registryAfter ops) \<and> ''right'' \<in> snd ` set (registryAfter ops)
      \<longrightarrow> assignPlayer c (registryAfter ops) = (''none'', registryAfter ops))"
  using seatsOk_inj [OF seatsOk_registryAfter] by (auto simp: assignPlayer_eq)


theorem C2_seats_injective_witness:
  "map_of (registryAfter [Assign 1, Assign 2]) 2 = Some ''right'' \<and>
   ''left'' \<in> snd ` set (registryAfter [Assign 1, Assign 2]) \<and>
   ''right'' \<in> snd ` set (registryAfter [Assign 1, Assign 2]) \<and>
   assignPlayer 3 (registryAfter [Assign 1, Assign 2])
     = (''none'', registryAfter [Assign 1, Assign 2])"
proof -
  have e: "registryAfter [Assign 1, Assign 2] = [(1, ''left''), (2, ''right'')]"
    by (simp add: registryAfter_def assignPlayer_eq)
  show ?thesis
    using C2_seats_injective [of "[Assign 1, Assign 2]" 2 "''right''" 2 3]
    unfolding e by simp
qed

subsection \<open>A sample state\<close>

lemma twoPlayers_eq:
  "twoPlayers =
     \<lparr> gameState = \<lparr> PanYLeft = 250, PanYRight = 250 \<rparr>,
       clients = [(1, ''left''), (2, ''right'')],
       assignedPlayers = [(1, ''left''), (2, ''right'')],
       wire = [(1, [(''type'', JString ''assign''), (''player'', JString ''left'')], True),
               (1, [(''type'', JString ''update''), (''leftY'', JInt 250), (''rightY'', JInt 250)], True),
               (2, [(''type'', JString ''assign''), (''player'', JString ''right'')], True),
               (2, [(''type'', JString ''update''), (''leftY'', JInt 250), (''rightY'', JInt 250)], True)] \<rparr>"
  by (simp add: twoPlayers_def accept_def assignPlayer_eq initServer_def writeTo_def marshal_def
      updateMsg_def CanvasHeight_def PaddleHeight_def AssignMessage_def UpdateMessage_def)

subsection \<open>Malformed messages\<close>








subsection \<open>Broadcast\<close>

lemma clients_broadcastLoop:
  "clients (broadcastLoop failing bytes cs s) =
     filter (\<lambda>(c, role). \<not> (c \<in> set failing \<and> c \<in> fst ` set cs)) (clients s)"
proof (induction failing bytes cs s rule: broadcastLoop.induct)
  case (1 failing bytes s)
  show ?case by simp
next
  case (2 failing bytes client role rest s)
  show ?case
  proof (cases "client \<in> set failing")
    case True
    with 2 show ?thesis
      by (auto simp: Let_def AList.delete_eq intro!: filter_cong)
  next
    case False
    with 2 show ?thesis
      by (auto simp: Let_def intro!: filter_cong)
  qed
qed

lemma wire_broadcastLoop:
  "wire (broadcastLoop failing bytes cs s) =
     wire s @ map (\<lambda>(c, role). (c, bytes, c \<notin> set failing)) cs"
  by (induction failing bytes cs s rule: broadcastLoop.induct)
     (simp_all add: Let_def writeTo_def)

text \<open>
  Claim C6. One broadcast attempts exactly one write of the update on every registered
  connection, whichever writes fail; afterwards the registered connections are those
  whose write succeeded, in their old order, and nothing else was removed.
\<close>

theorem C6_broadcast_isolates_failures:
  "clients (broadcastUpdate failing s) = filter (\<lambda>(c, role). c \<notin> set failing) (clients s) \<and>
   wire (broadcastUpdate failing s) =
     wire s @ map (\<lambda>(c, role). (c, marshal (updateMsg (gameState s)), c \<notin> set failing))
                  (clients s)"
proof -
  have "filter (\<lambda>(c, role). \<not> (c \<in> set failing \<and> c \<in> fst ` set (clients s))) (clients s)
          = filter (\<lambda>(c, role). c \<notin> set failing) (clients s)"
    by (rule filter_cong) (auto simp: image_iff)
  then show ?thesis
    by (simp add: broadcastUpdate_def clients_broadcastLoop wire_broadcastLoop)
qed


subsection \<open>Assignment order\<close>

lemma accept_none:
  assumes "''left'' \<in> snd ` set (assignedPlayers s)" "''right'' \<in> snd ` set (assignedPlayers s)"
  shows "accept failing ws s =
     (None, s\<lparr> wire := wire s @
        [(ws, [(''type'', JString ''error''), (''player'', JString ''none'')],
          ws \<notin> set failing)] \<rparr>)"
  using assms
  by (simp add: accept_def assignPlayer_eq writeTo_def marshal_def ErrorMessage_def)

text \<open>
  Claim C7. \<open>assignPlayer\<close> returns "left" when no connection holds "left", else "right"
  when no connection holds "right", else "none". When it returns "none" the registry is
  unchanged, and the handler only writes the error message to the rejected connection:
  the fan-out set and everything else stay as they were.
\<close>

theorem C7_assign_priority:
  "fst (assignPlayer ws (assignedPlayers s)) =
     (if ''left'' \<notin> snd ` set (assignedPlayers s) then ''left''
      else if ''right'' \<notin> snd ` set (assignedPlayers s) then ''right''
      else ''none'') \<and>
   (fst (assignPlayer ws (assignedPlayers s)) = ''none'' \<longrightarrow>
      snd (assignPlayer ws (assignedPlayers s)) = assignedPlayers s \<and>
      handleConnections failing ws inputs s =
        s\<lparr> wire := wire s @
          [(ws, [(''type'', JString ''error''), (''player'', JString ''none'')],
            ws \<notin> set failing)] \<rparr>)"
proof -
  have "handleConnections failing ws inputs s =
        s\<lparr> wire := wire s @
          [(ws, [(''type'', JString ''error''), (''player'', JString ''none'')],
            ws \<notin> set failing)] \<rparr>"
    if "''left'' \<in> snd ` set (assignedPlayers s)" "''right'' \<in> snd ` set (assignedPlayers s)"
    using that by (simp add: handleConnections_def accept_none)
  then show ?thesis
    by (simp add: assignPlayer_eq)
qed

theorem C7_assign_priority_witness:
  "fst (assignPlayer 3 (assignedPlayers twoPlayers)) = ''none'' \<and>
   snd (assignPlayer 3 (assignedPlayers twoPlayers)) = assignedPlayers twoPlayers \<and>
   clients (handleConnections [] 3 [] twoPlayers) = clients twoPlayers \<and>
   handleConnections [] 3 [] twoPlayers =
     twoPlayers\<lparr> wire := wire twoPlayers @
       [(3, [(''type'', JString ''error''), (''player'', JString ''none'')], True)] \<rparr>"
  using C7_assign_priority [of 3 twoPlayers "[]" "[]"]
  unfolding twoPlayers_eq by simp

subsection \<open>Frame of a move\<close>

lemma applyMove_other: "p \<noteq> ''left'' \<Longrightarrow> p \<noteq> ''right'' \<Longrightarrow> applyMove p y g = g"
  by (simp add: applyMove_def)

lemma applyMove_left_frame: "PanYRight (applyMove ''left'' y g) = PanYRight g"
  by (simp add: applyMove_def Let_def)

lemma applyMove_right_frame: "PanYLeft (applyMove ''right'' y g) = PanYLeft g"
  by (simp add: applyMove_def Let_def)

text \<open>
  Claim C10. A move for "left" leaves the right paddle where it was, a move for "right"
  leaves the left paddle where it was, and a move for any other non-empty player changes
  neither paddle but still runs the broadcast.
\<close>

theorem C10_move_frame:
  assumes "Type m = MoveMessage" and "Message.Y m = Some y"
  shows "PanYRight (gameState (handleMessage failing player (m\<lparr> Player := ''left'' \<rparr>) s))
           = PanYRight (gameState s) \<and>
         PanYLeft (gameState (handleMessage failing player (m\<lparr> Player := ''right'' \<rparr>) s))
           = PanYLeft (gameState s) \<and>
         (q \<noteq> [] \<and> q \<noteq> ''left'' \<and> q \<noteq> ''right'' \<longrightarrow>
            gameState (handleMessage failing player (m\<lparr> Player := q \<rparr>) s) = gameState s \<and>
            handleMessage failing player (m\<lparr> Player := q \<rparr>) s = broadcastUpdate failing s)"
  using assms
  by (simp add: handleMessage_def applyMove_left_frame applyMove_right_frame applyMove_other)

theorem C10_move_frame_witness:
  "Type (moveMsg ''up'' 40) = MoveMessage \<and> Message.Y (moveMsg ''up'' 40) = Some 40 \<and>
   PanYRight (gameState (handleMessage [] ''left'' ((moveMsg ''up'' 40)\<lparr> Player := ''left'' \<rparr>)
      twoPlayers)) = 250 \<and>
   PanYLeft (gameState (handleMessage [] ''left'' ((moveMsg ''up'' 40)\<lparr> Player := ''right'' \<rparr>)
      twoPlayers)) = 250 \<and>
   handleMessage [] ''left'' ((moveMsg ''up'' 40)\<lparr> Player := ''up'' \<rparr>) twoPlayers
     = broadcastUpdate [] twoPlayers"
  using C10_move_frame [of "moveMsg ''up'' 40" 40 "[]" "''left''" twoPlayers "''up''"]
  by (simp add: moveMsg_def twoPlayers_eq)


subsection \<open>Who writes a paddle\<close>

text \<open>
  Against claim C3 as stated: connection 2 holds "right"; a move naming "left" that
  arrives on it moves the left paddle from 250 to 10.
\<close>

theorem C3_other_seat_writes_counterexample:
  "map_of (assignedPlayers twoPlayers) 2 = Some ''right'' \<and>
   map_of (clients twoPlayers) 2 = Some ''right'' \<and>
   PanYLeft (gameState twoPlayers) = 250 \<and>
   PanYLeft (gameState (snd (readLoop ''right'' [(ReadOk (moveMsg ''left'' 10), [])] twoPlayers)))
     = 10"
  unfolding twoPlayers_eq
  by (simp add: moveMsg_def handleMessage_def applyMove_left)
    (simp add: clampYPosition_def MaxPaddleY_500)

lemma gameState_accept: "gameState (snd (accept failing ws s)) = gameState s"
  by (simp add: accept_def Let_def split: prod.splits)

lemma gameState_cleanup: "gameState (cleanup ws s) = gameState s"
  by (simp add: cleanup_def)

lemma applyMove_changes_left:
  "PanYLeft (applyMove p y g) \<noteq> PanYLeft g \<Longrightarrow> p = ''left''"
  by (auto simp: applyMove_def Let_def split: if_splits)

lemma applyMove_changes_right:
  "PanYRight (applyMove p y g) \<noteq> PanYRight g \<Longrightarrow> p = ''right''"
  by (auto simp: applyMove_def Let_def split: if_splits)

text \<open>
  Claim C3, amended. The seat of the connection a message arrives on plays no part in
  handling it. A paddle position changes only through a message of type "move" with a
  \<open>y\<close> whose player field names that paddle's seat; accepting a connection and cleaning
  up after one change no paddle.
\<close>

theorem C3_paddle_written_by_named_seat:
  "handleMessage failing player msg s = handleMessage failing player' msg s \<and>
   (PanYLeft (gameState (handleMessage failing player msg s)) \<noteq> PanYLeft (gameState s) \<longrightarrow>
      Type msg = MoveMessage \<and> Player msg = ''left'' \<and> Message.Y msg \<noteq> None) \<and>
   (PanYRight (gameState (handleMessage failing player msg' s)) \<noteq> PanYRight (gameState s) \<longrightarrow>
      Type msg' = MoveMessage \<and> Player msg' = ''right'' \<and> Message.Y msg' \<noteq> None) \<and>
   gameState (snd (accept failing ws s)) = gameState s \<and>
   gameState (cleanup ws s) = gameState s"
proof -
  have l: "Type msg = MoveMessage \<and> Player msg = ''left'' \<and> Message.Y msg \<noteq> None"
    if "PanYLeft (gameState (handleMessage failing player msg s)) \<noteq> PanYLeft (gameState s)"
    using that by (auto simp: gameState_handleMessage split: if_splits dest: applyMove_changes_left)
  have r: "Type msg' = MoveMessage \<and> Player msg' = ''right'' \<and> Message.Y msg' \<noteq> None"
    if "PanYRight (gameState (handleMessage failing player msg' s)) \<noteq> PanYRight (gameState s)"
    using that by (auto simp: gameState_handleMessage split: if_splits dest: applyMove_changes_right)
  have p: "handleMessage failing player msg s = handleMessage failing player' msg s"
    by (simp add: handleMessage_def)
  from l r p show ?thesis
    by (simp only: gameState_accept gameState_cleanup) blast
qed

theorem C3_paddle_written_by_named_seat_witness:
  "PanYLeft (gameState (handleMessage [] ''right'' (moveMsg ''left'' 10) twoPlayers))
     \<noteq> PanYLeft (gameState twoPlayers) \<and>
   PanYRight (gameState (handleMessage [] ''right'' (moveMsg ''right'' 20) twoPlayers))
     \<noteq> PanYRight (gameState twoPlayers) \<and>
   Type (moveMsg ''left'' 10) = MoveMessage \<and> Player (moveMsg ''left'' 10) = ''left'' \<and>
   Player (moveMsg ''right'' 20) = ''right'' \<and>
   handleMessage [] ''right'' (moveMsg ''left'' 10) twoPlayers
     = handleMessage [] ''left'' (moveMsg ''left'' 10) twoPlayers"
  using C3_paddle_written_by_named_seat
    [of "[]" "''right''" "moveMsg ''left'' 10" twoPlayers "''left''" "moveMsg ''right'' 20" 0]
  unfolding twoPlayers_eq
  by (simp add: moveMsg_def gameState_handleMessage applyMove_left applyMove_right
      clampYPosition_def MaxPaddleY_500)

subsection \<open>The update message at position 0\<close>

text \<open>
  Claim C5 at a failing input: after the left paddle is moved to 0, the update that is
  broadcast has no \<open>leftY\<close> field.
\<close>

theorem C5_update_omits_zero_position:
  "PanYLeft (gameState (handleMessage [] ''left'' (moveMsg ''left'' 0) twoPlayers)) = 0 \<and>
   wire (handleMessage [] ''left'' (moveMsg ''left'' 0) twoPlayers) =
     wire twoPlayers @
       [(1, [(''type'', JString ''update''), (''rightY'', JInt 250)], True),
        (2, [(''type'', JString ''update''), (''rightY'', JInt 250)], True)] \<and>
   map_of (marshal (updateMsg \<lparr> PanYLeft = 0, PanYRight = 250 \<rparr>)) ''leftY'' = None"
  unfolding twoPlayers_eq
  by (simp add: moveMsg_def handleMessage_def applyMove_def clampYPosition_def MaxPaddleY_500
      broadcastUpdate_def updateMsg_def marshal_def writeTo_def UpdateMessage_def Let_def)


subsection \<open>Release and reuse\<close>

lemma registryAfter_sample: "registryAfter [Assign 1, Assign 2, Release 1] = [(2, ''right'')]"
  by (simp add: registryAfter_def assignPlayer_eq release_def)

text \<open>
  Against claim C8 as stated: connection 2 holds "right" and "left" is free; after 2 is
  released, a new connection 3 is granted "left", not the freed "right".
\<close>

theorem C8_freed_seat_not_granted_counterexample:
  "map_of (registryAfter [Assign 1, Assign 2, Release 1]) 2 = Some ''right'' \<and>
   3 \<notin> fst ` set (registryAfter [Assign 1, Assign 2, Release 1]) \<and>
   fst (assignPlayer 3 (release 2 (registryAfter [Assign 1, Assign 2, Release 1]))) = ''left'' \<and>
   fst (assignPlayer 3 (release 2 (registryAfter [Assign 1, Assign 2, Release 1]))) \<noteq> ''right''"
  unfolding registryAfter_sample
  by (simp add: release_def assignPlayer_eq)

lemma seats_after_release:
  assumes "seatsOk ap" "map_of ap c = Some seat"
  shows "snd ` set (release c ap) = snd ` set ap - {seat}"
proof -
  have mem: "(c, seat) \<in> set ap"
    using assms(2) by (rule map_of_SomeD)
  have keys: "distinct (map fst ap)" and inj: "inj_on snd (set ap)"
    using assms(1) by (simp_all add: seatsOk_def distinct_map)
  have a: "v \<noteq> seat" if "(k, v) \<in> set ap" "k \<noteq> c" for k v
  proof
    assume "v = seat"
    with inj_onD [OF inj _ that(1) mem] that(2) show False by simp
  qed
  have b: "k \<noteq> c" if "(k, v) \<in> set ap" "v \<noteq> seat" for k v
  proof
    assume "k = c"
    with that(1) keys have "map_of ap c = Some v" by simp
    with assms(2) that(2) show False by simp
  qed
  show ?thesis
    unfolding release_def AList.delete_eq
    using a b by (force simp: image_iff)
qed

text \<open>
  Claim C8, amended. After the cleanup of a connection that held a seat, no connection
  holds that seat and the connection is gone from the fan-out set. The next
  \<open>assignPlayer\<close> grants the freed seat, except that it grants "left" when the freed seat
  is "right" and "left" is free as well.
\<close>

theorem C8_release_frees_seat:
  assumes "map_of (registryAfter ops) c = Some seat"
  shows "seat \<notin> snd ` set (release c (registryAfter ops)) \<and>
         fst (assignPlayer c' (release c (registryAfter ops))) =
           (if seat = ''right'' \<and> ''left'' \<notin> snd ` set (registryAfter ops) then ''left''
            else seat) \<and>
         c \<notin> fst ` set (clients (cleanup c s)) \<and>
         assignedPlayers (cleanup c s) = release c (assignedPlayers s)"
proof -
  let ?ap = "registryAfter ops"
  have ok: "seatsOk ?ap" by (rule seatsOk_registryAfter)
  have seats: "snd ` set (release c ?ap) = snd ` set ?ap - {seat}"
    using ok assms by (rule seats_after_release)
  have "(c, seat) \<in> set ?ap"
    using assms by (rule map_of_SomeD)
  then have mem: "seat \<in> snd ` set ?ap" by force
  with ok have lr: "seat = ''left'' \<or> seat = ''right''"
    by (auto simp: seatsOk_def)
  have g: "fst (assignPlayer c' (release c ?ap)) =
           (if seat = ''right'' \<and> ''left'' \<notin> snd ` set ?ap then ''left'' else seat)"
    using lr mem by (auto simp: assignPlayer_eq seats)
  have cl: "c \<notin> fst ` set (clients (cleanup c s))"
    by (auto simp: cleanup_def AList.delete_eq)
  show ?thesis
    using g cl by (simp add: seats cleanup_def)
qed

theorem C8_release_frees_seat_witness:
  "map_of (registryAfter [Assign 1, Assign 2]) 1 = Some ''left'' \<and>
   ''left'' \<notin> snd ` set (release 1 (registryAfter [Assign 1, Assign 2])) \<and>
   fst (assignPlayer 3 (release 1 (registryAfter [Assign 1, Assign 2]))) = ''left'' \<and>
   1 \<notin> fst ` set (clients (cleanup 1 twoPlayers))"
proof -
  have e: "registryAfter [Assign 1, Assign 2] = [(1, ''left''), (2, ''right'')]"
    by (simp add: registryAfter_def assignPlayer_eq)
  show ?thesis
    using C8_release_frees_seat [of "[Assign 1, Assign 2]" 1 "''left''" 3 twoPlayers]
    unfolding e by simp
qed

subsection \<open>The ball\<close>

text \<open>
  Claim C9. When, judged on the advanced position, no wall, no paddle and no game-over
  test fires, one tick returns the state in which the ball's \<open>x\<close> is \<open>x + vx\<close> and its \<open>y\<close>
  is \<open>y + vy\<close> (in \<open>float64\<close> arithmetic) and nothing else has changed.
\<close>

theorem C9_tick_advances_ball:
  assumes "b1 = integrate F (Ball g)"
    and "\<not> fle F (Ball.Y b1) (fromInt F 0)"
    and "\<not> fge F (Ball.Y b1) (fromInt F CanvasHeight)"
    and "\<not> (fle F (X b1) (fromInt F PaddleWidth) \<and>
            PanYLeft g \<le> toInt F (Ball.Y b1) \<and> toInt F (Ball.Y b1) \<le> PanYLeft g + PaddleHeight)"
    and "\<not> (fge F (X b1) (fromInt F (CanvasWidth - PaddleWidth)) \<and>
            PanYRight g \<le> toInt F (Ball.Y b1) \<and> toInt F (Ball.Y b1) \<le> PanYRight g + PaddleHeight)"
    and "\<not> flt F (X b1) (fromInt F 0)"
    and "\<not> fgt F (X b1) (fromInt F CanvasWidth)"
  shows "updateBallPosition F g =
           Some (g\<lparr> Ball := (Ball g)\<lparr> X := fadd F (X (Ball g)) (Vx (Ball g)),
                                      Y := fadd F (Ball.Y (Ball g)) (Vy (Ball g)) \<rparr> \<rparr>)"
proof -
  have b1: "b1 = (Ball g)\<lparr> X := fadd F (X (Ball g)) (Vx (Ball g)),
                          Y := fadd F (Ball.Y (Ball g)) (Vy (Ball g)) \<rparr>"
    using assms(1) by (simp add: integrate_def)
  have "updateBallPosition F g = Some (g\<lparr> Ball := b1 \<rparr>)"
    unfolding updateBallPosition_def Let_def assms(1) [symmetric]
    using assms(2-7) by auto
  then show ?thesis by (simp only: b1)
qed


theorem C9_tick_advances_ball_witness:
  "\<not> fle exactOps (Ball.Y (integrate exactOps (Ball (initSim exactOps)))) (fromInt exactOps 0) \<and>
   \<not> fge exactOps (Ball.Y (integrate exactOps (Ball (initSim exactOps))))
        (fromInt exactOps CanvasHeight) \<and>
   \<not> fle exactOps (X (integrate exactOps (Ball (initSim exactOps)))) (fromInt exactOps PaddleWidth) \<and>
   \<not> fge exactOps (X (integrate exactOps (Ball (initSim exactOps))))
        (fromInt exactOps (CanvasWidth - PaddleWidth)) \<and>
   \<not> flt exactOps (X (integrate exactOps (Ball (initSim exactOps)))) (fromInt exactOps 0) \<and>
   \<not> fgt exactOps (X (integrate exactOps (Ball (initSim exactOps)))) (fromInt exactOps CanvasWidth) \<and>
   updateBallPosition exactOps (initSim exactOps) =
     Some \<lparr> PanYLeft = 250, PanYRight = 250,
            Ball = \<lparr> X = 404, Y = 304, Vx = 4, Vy = 4 \<rparr> \<rparr>"
  using C9_tick_advances_ball
    [of "integrate exactOps (Ball (initSim exactOps))" exactOps "initSim exactOps"]
  by (simp add: exactOps_def initSim_def integrate_def CanvasHeight_def CanvasWidth_def
      PaddleWidth_def PaddleHeight_def)

end
